theory Spec2Isabelle
  imports Main
begin

section \<open>Shared data: configuration types and errors\<close>

text \<open>
  The interfaces of the configuration types. JavaScript numbers that hold epoch
  milliseconds, seconds and counters are integers far below \<open>2^53\<close>, so they are
  modelled as \<open>int\<close> (or \<open>nat\<close> for a counter that starts at 0 and is only incremented
  or reset). An optional field (\<open>obtained_at?: number\<close>) is an \<open>option\<close>.
\<close>

record AuthToken =
  access_token :: string
  token_type :: string
  expires_in :: int
  refresh_token :: "string option"
  scope :: "string option"
  obtained_at :: "int option"

record ApiError =
  ae_status :: string
  ae_message :: string
  ae_correlationId :: "string option"
  ae_category :: "string option"

text \<open>\<open>class AuthError extends Error\<close>: message, correlationId?, category?.\<close>

datatype AuthError = AuthError string "string option" "string option"

text \<open>
  The values thrown in the API layer: \<open>ApiClientError\<close> (message, statusCode?,
  correlationId?, category?) and a plain \<open>Error\<close> (message).
\<close>

datatype error =
  ApiClientError string "int option" "string option" "string option"
| Error string

fun statusCode :: "error \<Rightarrow> int option" where
  "statusCode (ApiClientError m sc cid cat) = sc"
| "statusCode (Error m) = None"

text \<open>
  String interpolation of a thrown value (\<open>Error.prototype.toString\<close>): the name of
  the class, then the message when there is one.
\<close>

fun toString :: "error \<Rightarrow> string" where
  "toString (ApiClientError m sc cid cat) =
     (if m = [] then ''ApiClientError'' else ''ApiClientError: '' @ m)"
| "toString (Error m) = (if m = [] then ''Error'' else ''Error: '' @ m)"

section \<open>AuthManager (utils/auth.ts)\<close>

text \<open>
  The outcome of one POST to the token endpoint, as \<open>fetchAccessToken\<close> distinguishes
  them: a response body, an axios error (with the error body of the response when
  there is one, and the error's message), or some other thrown value.
\<close>

datatype post_outcome =
  PostOk AuthToken
| PostAxiosError "ApiError option" string
| PostOtherError string

text \<open>
  The state of the \<open>AuthManager\<close> (\<open>config.debug\<close>, \<open>currentToken\<close>,
  \<open>lastTokenLogTime\<close>) together with its environment: \<open>clock\<close> lists the values that
  successive calls of \<open>Date.now()\<close> return and \<open>reads\<close> counts the calls made so far;
  \<open>oauth\<close> lists the outcomes of successive token exchanges and \<open>posts\<close> counts the
  exchanges performed so far. Console output is left out.
\<close>

record world =
  debug :: bool
  currentToken :: "AuthToken option"
  lastTokenLogTime :: int
  clock :: "nat \<Rightarrow> int"
  reads :: nat
  oauth :: "nat \<Rightarrow> post_outcome"
  posts :: nat

definition Date_now :: "world \<Rightarrow> int \<times> world" where
  "Date_now w = (clock w (reads w), w\<lparr>reads := Suc (reads w)\<rparr>)"

text \<open>
  \<open>isTokenExpired\<close>: \<open>!token.obtained_at\<close> holds for an absent timestamp and for the
  number 0; the clock is read only after that test.
\<close>

definition isTokenExpired :: "AuthToken \<Rightarrow> world \<Rightarrow> bool \<times> world" where
  "isTokenExpired token w =
     (case obtained_at token of
        None \<Rightarrow> (True, w)
      | Some oa \<Rightarrow>
          if oa = 0 then (True, w)
          else
            (let (now, w1) = Date_now w;
                 expirationTime = oa + expires_in token * 1000;
                 bufferTime = 5 * 60 * 1000
             in (now \<ge> expirationTime - bufferTime, w1)))"

definition fetchAccessToken :: "world \<Rightarrow> (AuthError + AuthToken) \<times> world" where
  "fetchAccessToken w =
     (let w1 = w\<lparr>posts := Suc (posts w)\<rparr>
      in case oauth w (posts w) of
           PostOk body \<Rightarrow>
             (let (now, w2) = Date_now w1
              in (Inr (body\<lparr>obtained_at := Some now\<rparr>), w2))
         | PostAxiosError (Some errorData) msg \<Rightarrow>
             (Inl (AuthError
                (''OAuth authentication failed: '' @
                   (if ae_message errorData = [] then ''Unknown error''
                    else ae_message errorData))
                (ae_correlationId errorData) (ae_category errorData)), w1)
         | PostAxiosError None msg \<Rightarrow>
             (Inl (AuthError (''OAuth request failed: '' @ msg) None (Some ''HTTP_ERROR'')), w1)
         | PostOtherError txt \<Rightarrow>
             (Inl (AuthError (''Unexpected error during authentication: '' @ txt) None None), w1))"

text \<open>\<open>this.currentToken = await this.fetchAccessToken(); return this.currentToken.access_token\<close>\<close>

definition fetchAndStore :: "world \<Rightarrow> (AuthError + string) \<times> world" where
  "fetchAndStore w =
     (case fetchAccessToken w of
        (Inl e, w1) \<Rightarrow> (Inl e, w1)
      | (Inr token, w1) \<Rightarrow> (Inr (access_token token), w1\<lparr>currentToken := Some token\<rparr>))"

definition getAccessToken :: "world \<Rightarrow> (AuthError + string) \<times> world" where
  "getAccessToken w =
     (case currentToken w of
        None \<Rightarrow> fetchAndStore w
      | Some token \<Rightarrow>
          (let (expired, w1) = isTokenExpired token w
           in if \<not> expired then
                (let (now, w2) = Date_now w1
                 in (Inr (access_token token),
                     if debug w2 \<and> now - lastTokenLogTime w2 > 60000
                     then w2\<lparr>lastTokenLogTime := now\<rparr> else w2))
              else fetchAndStore w1))"

definition refreshToken :: "world \<Rightarrow> (AuthError + string) \<times> world" where
  "refreshToken w = fetchAndStore w"

definition clearToken :: "world \<Rightarrow> world" where
  "clearToken w = w\<lparr>currentToken := None\<rparr>"

section \<open>ApiClient (the HTTP gateway)\<close>

text \<open>
  A response of axios: its status and its body. \<open>Resolved\<close> and \<open>Rejected\<close> are the two
  ways one dispatched HTTP request settles: axios resolves a 2xx response and rejects
  everything else with an \<open>AxiosError\<close>, of which the interceptor reads
  \<open>error.response?.status\<close>, \<open>error.response?.data\<close> (here \<open>Some\<close> when it is an object)
  and \<open>error.message\<close>. An error made from a response always carries its request
  configuration, so \<open>originalRequest\<close> is present whenever the status is.
\<close>

record 'a response =
  r_status :: int
  r_data :: 'a

datatype 'a dispatch =
  Resolved "'a response"
| Rejected "int option" "ApiError option" string

definition createApiError :: "int option \<Rightarrow> ApiError option \<Rightarrow> string \<Rightarrow> error" where
  "createApiError st body msg =
     (case body of
        Some errorData \<Rightarrow>
          ApiClientError
            (''API Error: '' @
               (if ae_message errorData = [] then ''Unknown error'' else ae_message errorData))
            st (ae_correlationId errorData) (ae_category errorData)
      | None \<Rightarrow> ApiClientError (''HTTP Error: '' @ msg) st None None)"

text \<open>
  One call of \<open>this.axiosInstance(request)\<close>: the request interceptor, the dispatch, the
  response interceptor. The first argument lists how the successive dispatches of this
  request settle; each dispatch consumes one element, and the rest is returned. A
  rejection of the request interceptor (an \<open>AuthError\<close>, which has no response) skips
  the dispatch and reaches the error handler of the response interceptor. On a 401 the
  handler calls \<open>refreshToken\<close>, then \<open>getAccessToken\<close>, then \<open>this.axiosInstance\<close>
  again, which runs both interceptors again. The result is \<open>None\<close> when a dispatch is
  needed and the list is used up.
\<close>

fun axiosInstance ::
  "'a dispatch list \<Rightarrow> world \<Rightarrow> ((error + 'a response) \<times> world \<times> 'a dispatch list) option"
where
  "axiosInstance [] w = None"
| "axiosInstance (d # ds) w =
     (case getAccessToken w of
        (Inl (AuthError amsg cid cat), w1) \<Rightarrow>
          Some (Inl (createApiError None None amsg), w1, d # ds)
      | (Inr token, w1) \<Rightarrow>
          (case d of
             Resolved response \<Rightarrow> Some (Inr response, w1, ds)
           | Rejected st body msg \<Rightarrow>
               if st = Some 401 then
                 (case refreshToken w1 of
                    (Inl refreshError, w2) \<Rightarrow> Some (Inl (createApiError st body msg), w2, ds)
                  | (Inr t2, w2) \<Rightarrow>
                      (case getAccessToken w2 of
                         (Inl refreshError, w3) \<Rightarrow>
                           Some (Inl (createApiError st body msg), w3, ds)
                       | (Inr t3, w3) \<Rightarrow> axiosInstance ds w3))
               else Some (Inl (createApiError st body msg), w1, ds)))"

text \<open>
  The bodies of \<open>get\<close> and \<open>delete\<close>, applied to the outcome of the call of the axios
  instance (logging left out): \<open>get\<close> turns a 204 response into an \<open>ApiClientError\<close>.
\<close>

definition handleGet :: "error + 'a response \<Rightarrow> error + 'a" where
  "handleGet r =
     (case r of
        Inl e \<Rightarrow> Inl e
      | Inr response \<Rightarrow>
          if r_status response = 204
          then Inl (ApiClientError ''No content available'' (Some 204) None None)
          else Inr (r_data response))"

definition handleDelete :: "error + 'a response \<Rightarrow> error + 'a" where
  "handleDelete r = (case r of Inl e \<Rightarrow> Inl e | Inr response \<Rightarrow> Inr (r_data response))"

definition get ::
  "'a dispatch list \<Rightarrow> world \<Rightarrow> ((error + 'a) \<times> world \<times> 'a dispatch list) option" where
  "get script w =
     (case axiosInstance script w of
        None \<Rightarrow> None
      | Some (r, w1, rest) \<Rightarrow> Some (handleGet r, w1, rest))"

definition delete ::
  "'a dispatch list \<Rightarrow> world \<Rightarrow> ((error + 'a) \<times> world \<times> 'a dispatch list) option" where
  "delete script w =
     (case axiosInstance script w of
        None \<Rightarrow> None
      | Some (r, w1, rest) \<Rightarrow> Some (handleDelete r, w1, rest))"

section \<open>JournalApi\<close>

text \<open>
  \<open>JournalEntry\<close> as the service sends it: \<open>getNextJournalEntry\<close> tests \<open>entry.url\<close>, so
  the field may be absent. The body of a "next" response may itself be absent
  (\<open>!entry\<close>), which is the \<open>option\<close> around the entry there.
\<close>

record JournalEntry =
  url :: "string option"
  expiresAt :: string
  currentOffset :: string

record JournalEvent =
  je_type :: string
  je_portalId :: int
  je_occurredAt :: string
  je_action :: string
  je_objectTypeId :: string
  je_objectId :: int

record JournalData =
  offset :: string
  journalEvents :: "JournalEvent list"
  publishedAt :: string

record JournalEntryWithData = JournalEntry +
  data :: JournalData

text \<open>How the unauthenticated download of the signed URL settles.\<close>

datatype download_outcome =
  Downloaded JournalData
| DownloadAxiosError "int option" string
| DownloadOtherError string

definition downloadJournalData :: "download_outcome \<Rightarrow> error + JournalData" where
  "downloadJournalData dl =
     (case dl of
        Downloaded d \<Rightarrow> Inr d
      | DownloadAxiosError st msg \<Rightarrow>
          if st = Some 404
          then Inl (Error ''Journal data file not found - the URL may have expired'')
          else if st = Some 403
          then Inl (Error ''Access denied to journal data file - the URL may have expired'')
          else Inl (Error (''Failed to download journal data: '' @ msg))
      | DownloadOtherError txt \<Rightarrow>
          Inl (Error (''Unexpected error downloading journal data: '' @ txt)))"

definition withData :: "JournalEntry \<Rightarrow> JournalData \<Rightarrow> JournalEntryWithData" where
  "withData entry d =
     \<lparr>url = url entry, expiresAt = expiresAt entry, currentOffset = currentOffset entry,
      data = d\<rparr>"

definition getLatestJournalEntry ::
  "error + JournalEntry response \<Rightarrow> download_outcome \<Rightarrow> error + JournalEntryWithData" where
  "getLatestJournalEntry r dl =
     (case handleGet r of
        Inl e \<Rightarrow> Inl e
      | Inr entry \<Rightarrow>
          (case downloadJournalData dl of
             Inl e \<Rightarrow> Inl e
           | Inr d \<Rightarrow> Inr (withData entry d)))"

text \<open>
  \<open>getNextJournalEntry\<close>: the first argument is the outcome of the call of the axios
  instance for \<open>/webhooks/v4/journal/offset/{offset}/next\<close>, the second the outcome of
  the download, which is used only when the entry has a \<open>url\<close>. \<open>!entry.url\<close> holds for
  an absent and for an empty \<open>url\<close>.
\<close>

definition getNextJournalEntry ::
  "error + JournalEntry option response \<Rightarrow> download_outcome \<Rightarrow> error + JournalEntryWithData"
where
  "getNextJournalEntry r dl =
     (let attempt =
        (case handleGet r of
           Inl e \<Rightarrow> Inl e
         | Inr None \<Rightarrow> Inl (ApiClientError ''You are already on the latest offset'' (Some 204) None None)
         | Inr (Some entry) \<Rightarrow>
             if url entry = None \<or> url entry = Some []
             then Inl (ApiClientError ''You are already on the latest offset'' (Some 204) None None)
             else
               (case downloadJournalData dl of
                  Inl e \<Rightarrow> Inl e
                | Inr d \<Rightarrow> Inr (withData entry d)))
      in case attempt of
           Inr v \<Rightarrow> Inr v
         | Inl e \<Rightarrow>
             if statusCode e = Some 204
             then Inl (ApiClientError ''You are already on the latest offset'' (Some 204) None None)
             else Inl e)"

subsection \<open>streamJournalEntries\<close>

text \<open>
  What the stream does to the outside, in order: the calls of the two journal
  operations, the calls of the three callbacks and the timed sleeps (with the argument
  of \<open>setTimeout\<close>). The status texts are the constructors of \<open>status_update\<close>.
\<close>

datatype status_update =
  GettingInitial
| StartingFrom string
| RateLimitReached int

datatype effect =
  LatestEntryCall
| NextEntryCall string
| OnNewEntry JournalEntryWithData
| OnError string
| OnStatusUpdate status_update
| Sleep int

text \<open>
  The three callbacks: each is called with its argument and either returns (\<open>None\<close>) or
  throws (\<open>Some\<close> of the thrown value).
\<close>

record callbacks =
  onNewEntry :: "JournalEntryWithData \<Rightarrow> error option"
  onError :: "string \<Rightarrow> error option"
  onStatusUpdate :: "status_update \<Rightarrow> error option"

text \<open>The local variables of \<open>streamJournalEntries\<close> that the loop reads and writes.\<close>

record stream_state =
  lastOffset :: "string option"
  requestCount :: nat
  lastMinuteTimestamp :: int

text \<open>
  What one pass of the \<open>while\<close> loop takes from outside: the value of \<open>isRunning\<close> at
  the loop test and in the outer \<open>catch\<close>, the two readings of \<open>Date.now()\<close> (in
  \<open>resetRateLimit\<close> and in the computation of the wait time), and the outcomes of the
  request for the next entry and of its download.
\<close>

record tick =
  isRunning :: bool
  now_reset :: int
  now_wait :: int
  next_response :: "error + JournalEntry option response"
  next_download :: download_outcome
  isRunning_catch :: bool

definition MAX_REQUESTS_PER_MINUTE :: nat where
  "MAX_REQUESTS_PER_MINUTE = 30"

definition POLL_INTERVAL_MS :: int where
  "POLL_INTERVAL_MS = 2000"

definition resetRateLimit :: "int \<Rightarrow> stream_state \<Rightarrow> stream_state" where
  "resetRateLimit now s =
     (if now - lastMinuteTimestamp s \<ge> 60000
      then s\<lparr>requestCount := 0, lastMinuteTimestamp := now\<rparr>
      else s)"

definition checkRateLimit :: "int \<Rightarrow> stream_state \<Rightarrow> bool \<times> stream_state" where
  "checkRateLimit now s =
     (let s1 = resetRateLimit now s in (requestCount s1 < MAX_REQUESTS_PER_MINUTE, s1))"

definition incrementRequestCount :: "stream_state \<Rightarrow> stream_state" where
  "incrementRequestCount s = s\<lparr>requestCount := Suc (requestCount s)\<rparr>"

text \<open>\<open>Math.ceil(waitTime / 1000)\<close>\<close>

definition ceilSeconds :: "int \<Rightarrow> int" where
  "ceilSeconds waitTime = - ((- waitTime) div 1000)"

text \<open>
  The \<open>catch\<close> of the inner \<open>try\<close>. The third component of the result is the value
  thrown on to the outer \<open>try\<close>, if any.
\<close>

definition innerCatch ::
  "callbacks \<Rightarrow> error \<Rightarrow> stream_state \<Rightarrow> effect list \<Rightarrow>
   stream_state \<times> effect list \<times> error option" where
  "innerCatch cb e s pre =
     (let s1 = incrementRequestCount s
      in if statusCode e = Some 204 then (s1, pre, None)
         else
           (let msg = ''Error checking for new entries: '' @ toString e
            in (s1, pre @ [OnError msg], onError cb msg)))"

text \<open>The inner \<open>try\<close>, entered with a non-empty \<open>lastOffset\<close>.\<close>

definition innerTry ::
  "callbacks \<Rightarrow> tick \<Rightarrow> string \<Rightarrow> stream_state \<Rightarrow>
   stream_state \<times> effect list \<times> error option" where
  "innerTry cb t off s =
     (case getNextJournalEntry (next_response t) (next_download t) of
        Inr nextEntry \<Rightarrow>
          (let s1 = incrementRequestCount s
           in if currentOffset nextEntry \<noteq> off then
                (let s2 = s1\<lparr>lastOffset := Some (currentOffset nextEntry)\<rparr>
                 in case onNewEntry cb nextEntry of
                      None \<Rightarrow> (s2, [NextEntryCall off, OnNewEntry nextEntry], None)
                    | Some thrown \<Rightarrow>
                        innerCatch cb thrown s2 [NextEntryCall off, OnNewEntry nextEntry])
              else (s1, [NextEntryCall off], None))
      | Inl e \<Rightarrow> innerCatch cb e s [NextEntryCall off])"

text \<open>
  The outer \<open>try\<close> block: the rate check (whose branch ends with \<open>continue\<close>), the
  request when \<open>lastOffset\<close> is truthy, and the sleep of one poll interval.
\<close>

definition outerTry ::
  "callbacks \<Rightarrow> tick \<Rightarrow> stream_state \<Rightarrow> stream_state \<times> effect list \<times> error option" where
  "outerTry cb t s =
     (let (ok, s1) = checkRateLimit (now_reset t) s
      in if \<not> ok then
           (let waitTime = 60000 - (now_wait t - lastMinuteTimestamp s1);
                u = RateLimitReached (ceilSeconds waitTime)
            in case onStatusUpdate cb u of
                 Some thrown \<Rightarrow> (s1, [OnStatusUpdate u], Some thrown)
               | None \<Rightarrow> (s1, [OnStatusUpdate u, Sleep waitTime], None))
         else
           (case lastOffset s1 of
              None \<Rightarrow> (s1, [Sleep POLL_INTERVAL_MS], None)
            | Some off \<Rightarrow>
                if off = [] then (s1, [Sleep POLL_INTERVAL_MS], None)
                else
                  (case innerTry cb t off s1 of
                     (s2, effs, Some thrown) \<Rightarrow> (s2, effs, Some thrown)
                   | (s2, effs, None) \<Rightarrow> (s2, effs @ [Sleep POLL_INTERVAL_MS], None))))"

text \<open>
  One pass of the loop body: the outer \<open>try\<close> and its \<open>catch\<close>. A value thrown by
  \<open>onError\<close> inside that \<open>catch\<close> leaves the loop (third component).
\<close>

definition iteration ::
  "callbacks \<Rightarrow> tick \<Rightarrow> stream_state \<Rightarrow> stream_state \<times> effect list \<times> error option" where
  "iteration cb t s =
     (case outerTry cb t s of
        (s1, effs, None) \<Rightarrow> (s1, effs, None)
      | (s1, effs, Some thrown) \<Rightarrow>
          if isRunning_catch t then
            (let msg = ''Streaming error: '' @ toString thrown
             in case onError cb msg of
                  Some thrown2 \<Rightarrow> (s1, effs @ [OnError msg], Some thrown2)
                | None \<Rightarrow> (s1, effs @ [OnError msg, Sleep (POLL_INTERVAL_MS * 2)], None))
          else (s1, effs @ [Sleep (POLL_INTERVAL_MS * 2)], None))"

text \<open>
  \<open>pollForNewEntries\<close>, run for as many passes as the list has elements (a finite
  part of a run that only the stop function ends).
\<close>

fun pollForNewEntries ::
  "callbacks \<Rightarrow> tick list \<Rightarrow> stream_state \<Rightarrow> stream_state \<times> effect list \<times> error option"
where
  "pollForNewEntries cb [] s = (s, [], None)"
| "pollForNewEntries cb (t # ts) s =
     (if \<not> isRunning t then (s, [], None)
      else
        (case iteration cb t s of
           (s1, effs, Some thrown) \<Rightarrow> (s1, effs, Some thrown)
         | (s1, effs, None) \<Rightarrow>
             (case pollForNewEntries cb ts s1 of
                (s2, effs2, thrown) \<Rightarrow> (s2, effs @ effs2, thrown))))"

text \<open>
  What the start of the stream takes from outside: the reading of \<open>Date.now()\<close> that
  initialises \<open>lastMinuteTimestamp\<close>, the outcomes of the request for the latest entry
  and of its download, and the value of \<open>isRunning\<close> when the promise of the loop is
  rejected.
\<close>

record start =
  now_start :: int
  latest_response :: "error + JournalEntry response"
  latest_download :: download_outcome
  isRunning_rejected :: bool

definition initFailed :: "error \<Rightarrow> stream_state \<Rightarrow> effect list \<Rightarrow> stream_state \<times> effect list" where
  "initFailed e s pre =
     (s, pre @ [OnError (''Failed to get initial journal entry: '' @ toString e)])"

definition streamJournalEntries ::
  "callbacks \<Rightarrow> start \<Rightarrow> tick list \<Rightarrow> stream_state \<times> effect list" where
  "streamJournalEntries cb st ticks =
     (let s0 = \<lparr>lastOffset = None, requestCount = 0, lastMinuteTimestamp = now_start st\<rparr>
      in case onStatusUpdate cb GettingInitial of
           Some thrown \<Rightarrow> initFailed thrown s0 [OnStatusUpdate GettingInitial]
         | None \<Rightarrow>
             (case getLatestJournalEntry (latest_response st) (latest_download st) of
                Inl e \<Rightarrow> initFailed e s0 [OnStatusUpdate GettingInitial, LatestEntryCall]
              | Inr initialEntry \<Rightarrow>
                  (let s1 = incrementRequestCount
                              (s0\<lparr>lastOffset := Some (currentOffset initialEntry)\<rparr>);
                       u = StartingFrom (take 8 (currentOffset initialEntry));
                       pre = [OnStatusUpdate GettingInitial, LatestEntryCall, OnStatusUpdate u]
                   in case onStatusUpdate cb u of
                        Some thrown \<Rightarrow> initFailed thrown s1 pre
                      | None \<Rightarrow>
                          (case pollForNewEntries cb ticks s1 of
                             (s2, effs, None) \<Rightarrow> (s2, pre @ effs)
                           | (s2, effs, Some thrown) \<Rightarrow>
                               (s2, pre @ effs @
                                  (if isRunning_rejected st
                                   then [OnError (''Streaming failed: '' @ toString thrown)]
                                   else []))))))"

subsection \<open>The loop over the gateway\<close>

text \<open>
  The loop calls \<open>getNextJournalEntry\<close>, which calls \<open>this.apiClient.get\<close>, which calls
  the axios instance: the outcome that a pass takes for its request is the one that
  \<open>axiosInstance\<close> gives on the dispatches of that request. \<open>willRequest\<close> is the
  condition under which the pass reaches the request (budget not used up, \<open>lastOffset\<close>
  truthy). A pass is given with the list of how the dispatches of its request settle;
  the last component of the result counts the HTTP requests dispatched through the
  gateway. The download of the signed URL does not go through the gateway.
\<close>

definition willRequest :: "tick \<Rightarrow> stream_state \<Rightarrow> bool" where
  "willRequest t s =
     (let (ok, s1) = checkRateLimit (now_reset t) s
      in ok \<and> (case lastOffset s1 of None \<Rightarrow> False | Some off \<Rightarrow> off \<noteq> []))"



section \<open>SubscriptionsApi\<close>

datatype subscription_type = OBJECT | ASSOCIATION

record Subscription =
  sub_id :: int
  appId :: int
  subscriptionType :: subscription_type
  objectTypeId :: string
  portalId :: int
  actions :: "string list"
  properties :: "string list option"
  objectIds :: "int list option"
  associatedObjectTypeIds :: "string list option"
  createdBy :: int
  createdAt :: string
  updatedAt :: string
  deletedAt :: "string option"

record SubscriptionsResponse =
  results :: "Subscription list"

text \<open>
  The outcomes of the calls of the axios instance that the deletion makes: the bulk
  delete, the listing, and the individual deletes (by position in the loop and
  subscription id).
\<close>

record sub_env =
  bulk_response :: "error + unit response"
  list_response :: "error + SubscriptionsResponse response"
  item_response :: "nat \<Rightarrow> int \<Rightarrow> error + unit response"

text \<open>The requests issued and the lines printed, in order.\<close>

datatype sub_event =
  BulkDeleteCall int
| GetSubscriptionsCall
| DeleteSubscriptionCall int
| LogFallback
| LogNoneFound int
| LogDeleting nat
| LogDeleted int
| LogFailed int error

definition getSubscriptions ::
  "error + SubscriptionsResponse response \<Rightarrow> error + Subscription list" where
  "getSubscriptions r =
     (case handleGet r of Inl e \<Rightarrow> Inl e | Inr response \<Rightarrow> Inr (results response))"

definition deleteSubscription :: "error + unit response \<Rightarrow> error + unit" where
  "deleteSubscription r = handleDelete r"

text \<open>The \<open>for\<close> loop of the fallback, from position \<open>k\<close> on.\<close>

fun deleteEach :: "sub_env \<Rightarrow> nat \<Rightarrow> Subscription list \<Rightarrow> sub_event list" where
  "deleteEach env k [] = []"
| "deleteEach env k (subscription # rest) =
     (case deleteSubscription (item_response env k (sub_id subscription)) of
        Inr u \<Rightarrow> [DeleteSubscriptionCall (sub_id subscription), LogDeleted (sub_id subscription)]
      | Inl e \<Rightarrow>
          [DeleteSubscriptionCall (sub_id subscription), LogFailed (sub_id subscription) e])
     @ deleteEach env (Suc k) rest"

definition deletePortalSubscriptionsIndividually ::
  "sub_env \<Rightarrow> int \<Rightarrow> (error + unit) \<times> sub_event list" where
  "deletePortalSubscriptionsIndividually env pid =
     (case getSubscriptions (list_response env) of
        Inl e \<Rightarrow> (Inl e, [GetSubscriptionsCall])
      | Inr subscriptions \<Rightarrow>
          (let portalSubscriptions = filter (\<lambda>sub. portalId sub = pid) subscriptions
           in if length portalSubscriptions = 0
              then (Inr (), [GetSubscriptionsCall, LogNoneFound pid])
              else (Inr (),
                    [GetSubscriptionsCall, LogDeleting (length portalSubscriptions)]
                    @ deleteEach env 0 portalSubscriptions)))"

definition deletePortalSubscriptions ::
  "sub_env \<Rightarrow> int \<Rightarrow> (error + unit) \<times> sub_event list" where
  "deletePortalSubscriptions env pid =
     (case handleDelete (bulk_response env) of
        Inr u \<Rightarrow> (Inr (), [BulkDeleteCall pid])
      | Inl e \<Rightarrow>
          if statusCode e = Some 500 then
            (case deletePortalSubscriptionsIndividually env pid of
               (r, evs) \<Rightarrow> (r, [BulkDeleteCall pid, LogFallback] @ evs))
          else (Inl e, [BulkDeleteCall pid]))"

text \<open>Projections of the traces that the properties below speak about.\<close>

fun isJournalCall :: "effect \<Rightarrow> bool" where
  "isJournalCall LatestEntryCall = True"
| "isJournalCall (NextEntryCall off) = True"
| "isJournalCall e = False"

fun isOnNewEntry :: "effect \<Rightarrow> bool" where
  "isOnNewEntry (OnNewEntry entry) = True"
| "isOnNewEntry e = False"

fun isOnError :: "effect \<Rightarrow> bool" where
  "isOnError (OnError msg) = True"
| "isOnError e = False"

fun isCall :: "sub_event \<Rightarrow> bool" where
  "isCall (BulkDeleteCall pid) = True"
| "isCall GetSubscriptionsCall = True"
| "isCall (DeleteSubscriptionCall i) = True"
| "isCall e = False"

section \<open>Properties of the AuthManager\<close>

lemma posts_fetchAndStore: "posts (snd (fetchAndStore w)) = Suc (posts w)"
  by (simp add: fetchAndStore_def fetchAccessToken_def Date_now_def Let_def
      split: post_outcome.splits option.splits prod.splits sum.splits)

lemma getAccessToken_hit:
  "currentToken w = Some token \<Longrightarrow> \<not> fst (isTokenExpired token w) \<Longrightarrow>
   fst (getAccessToken w) = Inr (access_token token)
   \<and> posts (snd (getAccessToken w)) = posts w
   \<and> currentToken (snd (getAccessToken w)) = Some token"
  by (auto simp add: getAccessToken_def isTokenExpired_def Date_now_def Let_def
      split: option.splits prod.splits if_splits)

lemma getAccessToken_exchange_only:
  "posts (snd (getAccessToken v)) \<noteq> posts v \<Longrightarrow>
   currentToken v = None \<or> (\<exists>t. currentToken v = Some t \<and> fst (isTokenExpired t v))"
  by (auto simp add: getAccessToken_def isTokenExpired_def Date_now_def Let_def
      split: option.splits prod.splits if_splits)

text \<open>
  Where the obtained-at timestamp is present and not 0, the predicate is the formula
  \<open>now \<ge> obtainedAt + expiresIn*1000 - 5*60*1000\<close>, with \<open>now\<close> the reading of the clock
  that the predicate takes: a token with \<open>expiresIn = 300\<close> and \<open>obtainedAt = now - 1\<close> is
  expired, and with the clock one second earlier it is not.
\<close>

theorem isTokenExpired_iff:
  assumes "obtained_at token = Some oa" and "oa \<noteq> 0"
  shows "fst (isTokenExpired token w) =
           (clock w (reads w) \<ge> oa + expires_in token * 1000 - 5 * 60 * 1000)
       \<and> (expires_in token = 300 \<and> oa = clock w (reads w) - 1 \<longrightarrow>
            fst (isTokenExpired token w)
          \<and> \<not> fst (isTokenExpired token (w\<lparr>clock := \<lambda>n. clock w n - 1000\<rparr>)))"
  using assms by (simp add: isTokenExpired_def Date_now_def)

theorem isTokenExpired_iff_witness:
  "fst (isTokenExpired
      \<lparr>access_token = ''tok'', token_type = ''bearer'', expires_in = 300,
       refresh_token = None, scope = None, obtained_at = Some 1699999999999\<rparr>
      \<lparr>debug = False, currentToken = None, lastTokenLogTime = 0,
       clock = (\<lambda>n. 1700000000000), reads = 0, oauth = (\<lambda>n. PostOtherError []), posts = 0\<rparr>)
   \<and> \<not> fst (isTokenExpired
      \<lparr>access_token = ''tok'', token_type = ''bearer'', expires_in = 300,
       refresh_token = None, scope = None, obtained_at = Some 1699999999999\<rparr>
      \<lparr>debug = False, currentToken = None, lastTokenLogTime = 0,
       clock = (\<lambda>n. 1700000000000 - 1000), reads = 0, oauth = (\<lambda>n. PostOtherError []),
       posts = 0\<rparr>)"
  using isTokenExpired_iff [of
      "\<lparr>access_token = ''tok'', token_type = ''bearer'', expires_in = 300,
        refresh_token = None, scope = None, obtained_at = Some 1699999999999\<rparr>"
      1699999999999
      "\<lparr>debug = False, currentToken = None, lastTokenLogTime = 0,
        clock = (\<lambda>n. 1700000000000), reads = 0, oauth = (\<lambda>n. PostOtherError []), posts = 0\<rparr>"]
  by simp

text \<open>
  C8 at the timestamp 0. The clock reads 0 when the first token exchange completes, so
  the token is cached with \<open>obtained_at = 0\<close> (and \<open>expires_in = 3600\<close>). At the next call
  of \<open>getAccessToken\<close> the clock reads 1000, where the formula
  \<open>now \<ge> obtainedAt + expiresIn*1000 - 5*60*1000\<close> is false: the token has a timestamp and
  is not expired by the formula. The guard \<open>!token.obtained_at\<close> is true for the number
  0, the predicate answers "expired", and the call performs a second exchange instead
  of serving the cached token.
\<close>

theorem zero_timestamp_refetch:
  "getAccessToken
     \<lparr>debug = False, currentToken = None, lastTokenLogTime = 0,
      clock = (\<lambda>n. if n = 0 then 0 else 1000), reads = 0,
      oauth = (\<lambda>n. PostOk \<lparr>access_token = (if n = 0 then ''first'' else ''second''),
        token_type = ''bearer'', expires_in = 3600,
        refresh_token = None, scope = None, obtained_at = None\<rparr>), posts = 0\<rparr>
   = (Inr ''first'',
      \<lparr>debug = False,
       currentToken = Some \<lparr>access_token = ''first'', token_type = ''bearer'',
         expires_in = 3600, refresh_token = None, scope = None, obtained_at = Some 0\<rparr>,
       lastTokenLogTime = 0,
       clock = (\<lambda>n. if n = 0 then 0 else 1000), reads = 1,
       oauth = (\<lambda>n. PostOk \<lparr>access_token = (if n = 0 then ''first'' else ''second''),
         token_type = ''bearer'', expires_in = 3600,
         refresh_token = None, scope = None, obtained_at = None\<rparr>), posts = 1\<rparr>)
   \<and> fst (isTokenExpired
        \<lparr>access_token = ''first'', token_type = ''bearer'',
         expires_in = 3600, refresh_token = None, scope = None, obtained_at = Some 0\<rparr>
        \<lparr>debug = False,
         currentToken = Some \<lparr>access_token = ''first'', token_type = ''bearer'',
           expires_in = 3600, refresh_token = None, scope = None, obtained_at = Some 0\<rparr>,
         lastTokenLogTime = 0,
         clock = (\<lambda>n. if n = 0 then 0 else 1000), reads = 1,
         oauth = (\<lambda>n. PostOk \<lparr>access_token = (if n = 0 then ''first'' else ''second''),
           token_type = ''bearer'', expires_in = 3600,
           refresh_token = None, scope = None, obtained_at = None\<rparr>), posts = 1\<rparr>)
   \<and> \<not> ((1000::int) \<ge> 0 + 3600 * 1000 - 5 * 60 * 1000)
   \<and> getAccessToken
      \<lparr>debug = False,
       currentToken = Some \<lparr>access_token = ''first'', token_type = ''bearer'',
         expires_in = 3600, refresh_token = None, scope = None, obtained_at = Some 0\<rparr>,
       lastTokenLogTime = 0,
       clock = (\<lambda>n. if n = 0 then 0 else 1000), reads = 1,
       oauth = (\<lambda>n. PostOk \<lparr>access_token = (if n = 0 then ''first'' else ''second''),
         token_type = ''bearer'', expires_in = 3600,
         refresh_token = None, scope = None, obtained_at = None\<rparr>), posts = 1\<rparr>
   = (Inr ''second'',
      \<lparr>debug = False,
       currentToken = Some \<lparr>access_token = ''second'', token_type = ''bearer'',
         expires_in = 3600, refresh_token = None, scope = None, obtained_at = Some 1000\<rparr>,
       lastTokenLogTime = 0,
       clock = (\<lambda>n. if n = 0 then 0 else 1000), reads = 2,
       oauth = (\<lambda>n. PostOk \<lparr>access_token = (if n = 0 then ''first'' else ''second''),
         token_type = ''bearer'', expires_in = 3600,
         refresh_token = None, scope = None, obtained_at = None\<rparr>), posts = 2\<rparr>)"
  by (simp add: getAccessToken_def isTokenExpired_def fetchAndStore_def fetchAccessToken_def
      Date_now_def)

text \<open>
  C9: with a cached token that is not expired at the first call of \<open>getAccessToken\<close>
  nor at the second, both calls return the \<open>access_token\<close> of that token and the number
  of token exchanges is unchanged after the two calls; and whenever a call of
  \<open>getAccessToken\<close> performs an exchange, no token was cached or the cached one was
  expired.
\<close>

theorem getAccessToken_cached:
  assumes "currentToken w = Some token"
    and "\<not> fst (isTokenExpired token w)"
    and "\<not> fst (isTokenExpired token (snd (getAccessToken w)))"
  shows "fst (getAccessToken w) = Inr (access_token token)
       \<and> fst (getAccessToken (snd (getAccessToken w))) = Inr (access_token token)
       \<and> posts (snd (getAccessToken (snd (getAccessToken w)))) = posts w
       \<and> (\<forall>v. posts (snd (getAccessToken v)) \<noteq> posts v \<longrightarrow>
             currentToken v = None
           \<or> (\<exists>t. currentToken v = Some t \<and> fst (isTokenExpired t v)))"
proof -
  let ?w1 = "snd (getAccessToken w)"
  have first: "fst (getAccessToken w) = Inr (access_token token)"
    "posts ?w1 = posts w" "currentToken ?w1 = Some token"
    using getAccessToken_hit [OF assms(1,2)] by simp_all
  have second: "fst (getAccessToken ?w1) = Inr (access_token token)"
    "posts (snd (getAccessToken ?w1)) = posts ?w1"
    using getAccessToken_hit [OF first(3) assms(3)] by simp_all
  show ?thesis
    using first second getAccessToken_exchange_only by auto
qed

theorem getAccessToken_cached_witness:
  "fst (getAccessToken
     \<lparr>debug = True,
      currentToken = Some \<lparr>access_token = ''abc'', token_type = ''bearer'', expires_in = 1800,
        refresh_token = None, scope = None, obtained_at = Some 1000\<rparr>,
      lastTokenLogTime = 0, clock = (\<lambda>n. 2000 + int n), reads = 0,
      oauth = (\<lambda>n. PostOtherError ''unused''), posts = 1\<rparr>) = Inr ''abc''
   \<and> posts (snd (getAccessToken (snd (getAccessToken
     \<lparr>debug = True,
      currentToken = Some \<lparr>access_token = ''abc'', token_type = ''bearer'', expires_in = 1800,
        refresh_token = None, scope = None, obtained_at = Some 1000\<rparr>,
      lastTokenLogTime = 0, clock = (\<lambda>n. 2000 + int n), reads = 0,
      oauth = (\<lambda>n. PostOtherError ''unused''), posts = 1\<rparr>)))) = 1"
  using getAccessToken_cached [of
     "\<lparr>debug = True,
      currentToken = Some \<lparr>access_token = ''abc'', token_type = ''bearer'', expires_in = 1800,
        refresh_token = None, scope = None, obtained_at = Some 1000\<rparr>,
      lastTokenLogTime = 0, clock = (\<lambda>n. 2000 + int n), reads = 0,
      oauth = (\<lambda>n. PostOtherError ''unused''), posts = 1\<rparr>"
     "\<lparr>access_token = ''abc'', token_type = ''bearer'', expires_in = 1800,
        refresh_token = None, scope = None, obtained_at = Some 1000\<rparr>"]
  by (simp add: getAccessToken_def isTokenExpired_def Date_now_def)

text \<open>
  C10: a token without an obtained-at timestamp is expired, and the predicate decides
  this without reading the clock (the formula is not evaluated); when such a token is
  the cached one, \<open>getAccessToken\<close> does not serve it but performs an exchange.
\<close>

theorem missing_timestamp_expired:
  assumes "obtained_at token = None"
  shows "fst (isTokenExpired token w)
       \<and> snd (isTokenExpired token w) = w
       \<and> (currentToken w = Some token \<longrightarrow>
            getAccessToken w = fetchAndStore w
          \<and> posts (snd (getAccessToken w)) = Suc (posts w))"
  using assms posts_fetchAndStore [of w]
  by (simp add: isTokenExpired_def getAccessToken_def)

theorem missing_timestamp_expired_witness:
  "getAccessToken
     \<lparr>debug = False,
      currentToken = Some \<lparr>access_token = ''old'', token_type = ''bearer'', expires_in = 1800,
        refresh_token = None, scope = None, obtained_at = None\<rparr>,
      lastTokenLogTime = 0, clock = (\<lambda>n. 5000), reads = 0,
      oauth = (\<lambda>n. PostOk \<lparr>access_token = ''new'', token_type = ''bearer'', expires_in = 1800,
        refresh_token = None, scope = None, obtained_at = None\<rparr>), posts = 0\<rparr>
   = (Inr ''new'',
     \<lparr>debug = False,
      currentToken = Some \<lparr>access_token = ''new'', token_type = ''bearer'', expires_in = 1800,
        refresh_token = None, scope = None, obtained_at = Some 5000\<rparr>,
      lastTokenLogTime = 0, clock = (\<lambda>n. 5000), reads = 1,
      oauth = (\<lambda>n. PostOk \<lparr>access_token = ''new'', token_type = ''bearer'', expires_in = 1800,
        refresh_token = None, scope = None, obtained_at = None\<rparr>), posts = 1\<rparr>)"
  using missing_timestamp_expired [of
     "\<lparr>access_token = ''old'', token_type = ''bearer'', expires_in = 1800,
        refresh_token = None, scope = None, obtained_at = None\<rparr>"
     "\<lparr>debug = False,
      currentToken = Some \<lparr>access_token = ''old'', token_type = ''bearer'', expires_in = 1800,
        refresh_token = None, scope = None, obtained_at = None\<rparr>,
      lastTokenLogTime = 0, clock = (\<lambda>n. 5000), reads = 0,
      oauth = (\<lambda>n. PostOk \<lparr>access_token = ''new'', token_type = ''bearer'', expires_in = 1800,
        refresh_token = None, scope = None, obtained_at = None\<rparr>), posts = 0\<rparr>"]
  by (simp add: fetchAndStore_def fetchAccessToken_def Date_now_def)

section \<open>Properties of the JournalApi\<close>

lemma no_content_204:
  "getNextJournalEntry (Inr \<lparr>r_status = 204, r_data = body\<rparr>) dl =
     Inl (ApiClientError ''You are already on the latest offset'' (Some 204) None None)"
  by (simp add: getNextJournalEntry_def handleGet_def)

lemma next_entry_ok:
  "url entry = Some u \<Longrightarrow> u \<noteq> [] \<Longrightarrow>
   getNextJournalEntry (Inr \<lparr>r_status = 200, r_data = Some entry\<rparr>) (Downloaded d) =
     Inr (withData entry d)"
  by (simp add: getNextJournalEntry_def handleGet_def downloadJournalData_def)

lemma iteration_no_content:
  assumes "lastOffset s = Some A" and "A \<noteq> []" and "requestCount s < 30"
    and "next_response t = Inr \<lparr>r_status = 204, r_data = body\<rparr>"
  shows "\<exists>s'. iteration cb t s = (s', [NextEntryCall A, Sleep 2000], None)
            \<and> lastOffset s' = Some A \<and> requestCount s' \<le> Suc (requestCount s)"
  using assms
  by (simp add: iteration_def outerTry_def checkRateLimit_def resetRateLimit_def
      MAX_REQUESTS_PER_MINUTE_def innerTry_def innerCatch_def incrementRequestCount_def
      no_content_204 POLL_INTERVAL_MS_def Let_def)

lemma iteration_new_entry:
  assumes "lastOffset s = Some A" and "A \<noteq> []" and "requestCount s < 30"
    and "next_response t = Inr \<lparr>r_status = 200, r_data = Some entry\<rparr>"
    and "url entry = Some u" and "u \<noteq> []" and "next_download t = Downloaded d"
    and "currentOffset entry \<noteq> A" and "onNewEntry cb (withData entry d) = None"
  shows "\<exists>s'. iteration cb t s =
              (s', [NextEntryCall A, OnNewEntry (withData entry d), Sleep 2000], None)
            \<and> lastOffset s' = Some (currentOffset entry)
            \<and> requestCount s' \<le> Suc (requestCount s)"
  using assms
  by (simp add: iteration_def outerTry_def checkRateLimit_def resetRateLimit_def
      MAX_REQUESTS_PER_MINUTE_def innerTry_def innerCatch_def incrementRequestCount_def
      next_entry_ok POLL_INTERVAL_MS_def Let_def withData_def)

lemma innerCatch_count:
  "innerCatch cb e s pre = (s', effs, thr) \<Longrightarrow>
   requestCount s' = Suc (requestCount s) \<and> lastMinuteTimestamp s' = lastMinuteTimestamp s
   \<and> lastOffset s' = lastOffset s
   \<and> filter isJournalCall effs = filter isJournalCall pre"
  by (auto simp add: innerCatch_def incrementRequestCount_def Let_def split: if_splits)

lemma innerTry_count:
  assumes "innerTry cb t off s = (s', effs, thr)"
  shows "filter isJournalCall effs = [NextEntryCall off]
       \<and> Suc (requestCount s) \<le> requestCount s'
       \<and> lastMinuteTimestamp s' = lastMinuteTimestamp s"
proof (cases "getNextJournalEntry (next_response t) (next_download t)")
  case (Inl e)
  then show ?thesis
    using assms innerCatch_count [of cb e s "[NextEntryCall off]" s' effs thr]
    by (simp add: innerTry_def)
next
  case (Inr nextEntry)
  show ?thesis
  proof (cases "currentOffset nextEntry \<noteq> off")
    case False
    then show ?thesis
      using assms Inr by (auto simp add: innerTry_def incrementRequestCount_def)
  next
    case True
    let ?s2 = "incrementRequestCount s\<lparr>lastOffset := Some (currentOffset nextEntry)\<rparr>"
    show ?thesis
    proof (cases "onNewEntry cb nextEntry")
      case None
      then show ?thesis
        using assms Inr True by (auto simp add: innerTry_def incrementRequestCount_def)
    next
      case (Some thrown)
      then have "innerCatch cb thrown ?s2 [NextEntryCall off, OnNewEntry nextEntry] = (s', effs, thr)"
        using assms Inr True by (simp add: innerTry_def Let_def)
      from innerCatch_count [OF this] show ?thesis
        by (simp add: incrementRequestCount_def)
    qed
  qed
qed

lemma outerTry_blocked:
  assumes "30 \<le> requestCount s" and "now_reset t - lastMinuteTimestamp s < 60000"
  shows "outerTry cb t s =
     (let waitTime = 60000 - (now_wait t - lastMinuteTimestamp s);
          u = RateLimitReached (ceilSeconds waitTime)
      in case onStatusUpdate cb u of
           Some thrown \<Rightarrow> (s, [OnStatusUpdate u], Some thrown)
         | None \<Rightarrow> (s, [OnStatusUpdate u, Sleep waitTime], None))"
  using assms
  by (simp add: outerTry_def checkRateLimit_def resetRateLimit_def
      MAX_REQUESTS_PER_MINUTE_def Let_def)

lemma outerTry_count:
  assumes "outerTry cb t s = (s', effs, thr)"
    and "now_reset t - lastMinuteTimestamp s < 60000"
  shows "requestCount s + length (filter isJournalCall effs) \<le> requestCount s'
       \<and> (filter isJournalCall effs \<noteq> [] \<longrightarrow> requestCount s < 30)
       \<and> length (filter isJournalCall effs) \<le> 1
       \<and> lastMinuteTimestamp s' = lastMinuteTimestamp s"
proof (cases "requestCount s < 30")
  case False
  then have "30 \<le> requestCount s" by simp
  from outerTry_blocked [OF this assms(2), of cb] assms(1) show ?thesis
    by (auto simp add: Let_def split: option.splits)
next
  case True
  have reset: "resetRateLimit (now_reset t) s = s"
    using assms(2) by (simp add: resetRateLimit_def)
  show ?thesis
  proof (cases "lastOffset s")
    case None
    then show ?thesis
      using assms(1) True reset
      by (auto simp add: outerTry_def checkRateLimit_def MAX_REQUESTS_PER_MINUTE_def)
  next
    case (Some off)
    show ?thesis
    proof (cases "off = []")
      case True
      then show ?thesis
        using assms(1) \<open>requestCount s < 30\<close> reset Some
        by (auto simp add: outerTry_def checkRateLimit_def MAX_REQUESTS_PER_MINUTE_def)
    next
      case False
      obtain s2 effs2 thr2 where it: "innerTry cb t off s = (s2, effs2, thr2)"
        by (cases "innerTry cb t off s") auto
      from innerTry_count [OF it] have c: "filter isJournalCall effs2 = [NextEntryCall off]"
        "Suc (requestCount s) \<le> requestCount s2"
        "lastMinuteTimestamp s2 = lastMinuteTimestamp s" by simp_all
      have "s' = s2 \<and> filter isJournalCall effs = filter isJournalCall effs2"
        using assms(1) True reset Some False it
        by (auto simp add: outerTry_def checkRateLimit_def MAX_REQUESTS_PER_MINUTE_def
            split: option.splits)
      with c True show ?thesis by simp
    qed
  qed
qed

lemma iteration_count:
  assumes "iteration cb t s = (s', effs, thr)"
    and "now_reset t - lastMinuteTimestamp s < 60000"
  shows "requestCount s + length (filter isJournalCall effs) \<le> requestCount s'
       \<and> (filter isJournalCall effs \<noteq> [] \<longrightarrow> requestCount s < 30)
       \<and> length (filter isJournalCall effs) \<le> 1
       \<and> lastMinuteTimestamp s' = lastMinuteTimestamp s"
proof -
  obtain s1 effs1 thr1 where ot: "outerTry cb t s = (s1, effs1, thr1)"
    by (cases "outerTry cb t s") auto
  have "s' = s1 \<and> filter isJournalCall effs = filter isJournalCall effs1"
    using assms(1) ot
    by (auto simp add: iteration_def Let_def split: option.splits if_splits)
  with outerTry_count [OF ot assms(2)] show ?thesis by simp
qed

lemma poll_count:
  assumes "\<forall>t \<in> set ts. now_reset t - lastMinuteTimestamp s < 60000"
    and "pollForNewEntries cb ts s = (s', effs, thr)"
  shows "requestCount s + length (filter isJournalCall effs) \<le> max 30 (requestCount s)"
  using assms
proof (induction ts arbitrary: s s' effs thr)
  case Nil
  then show ?case by simp
next
  case (Cons t ts)
  show ?case
  proof (cases "isRunning t")
    case False
    with Cons.prems show ?thesis by simp
  next
    case True
    obtain s1 effs1 thr1 where it: "iteration cb t s = (s1, effs1, thr1)"
      by (cases "iteration cb t s") auto
    have win: "now_reset t - lastMinuteTimestamp s < 60000"
      using Cons.prems(1) by simp
    note c = iteration_count [OF it win]
    show ?thesis
    proof (cases thr1)
      case (Some thrown)
      then have "effs = effs1" using Cons.prems(2) True it by simp
      with c show ?thesis by (cases "filter isJournalCall effs1") auto
    next
      case None
      obtain s2 effs2 thr2 where rest: "pollForNewEntries cb ts s1 = (s2, effs2, thr2)"
        by (cases "pollForNewEntries cb ts s1") auto
      have effs: "effs = effs1 @ effs2"
        using Cons.prems(2) True it None rest by simp
      have "\<forall>t \<in> set ts. now_reset t - lastMinuteTimestamp s1 < 60000"
        using Cons.prems(1) c by simp
      from Cons.IH [OF this rest]
      have ih: "requestCount s1 + length (filter isJournalCall effs2) \<le> max 30 (requestCount s1)" .
      show ?thesis
      proof (cases "filter isJournalCall effs1")
        case Nil
        then show ?thesis using c ih effs by auto
      next
        case (Cons a list)
        then have "requestCount s < 30" "length (filter isJournalCall effs1) = 1"
          using c by auto
        then show ?thesis using c ih effs by auto
      qed
    qed
  qed
qed



text \<open>
  C1: started from the held offset \<open>A\<close> with at most 26 requests counted, the loop run
  on the responses 204, 204, an entry with offset \<open>B\<close> (distinct from \<open>A\<close>) whose
  download succeeds, 204, with a consumer callback that returns on that entry, performs
  exactly the following: three requests after \<open>A\<close>, one call of \<open>onNewEntry\<close> with the
  entry of offset \<open>B\<close>, a fourth request after \<open>B\<close>, a sleep of the poll interval after
  each request, and no call of \<open>onError\<close>; the held offset is \<open>B\<close> at the end. (The two
  offsets are non-empty strings: the loop requests the entry after the held offset only
  when that offset is truthy, and each of the four responses answers such a request.)
\<close>

theorem cursor_loop_scenario:
  assumes "A \<noteq> []" and "B \<noteq> A" and "B \<noteq> []"
    and "lastOffset s = Some A" and "requestCount s \<le> 26"
    and "isRunning t1" and "isRunning t2" and "isRunning t3" and "isRunning t4"
    and "next_response t1 = Inr \<lparr>r_status = 204, r_data = b1\<rparr>"
    and "next_response t2 = Inr \<lparr>r_status = 204, r_data = b2\<rparr>"
    and "next_response t3 = Inr \<lparr>r_status = 200, r_data = Some entry\<rparr>"
    and "url entry = Some u" and "u \<noteq> []" and "currentOffset entry = B"
    and "next_download t3 = Downloaded d"
    and "next_response t4 = Inr \<lparr>r_status = 204, r_data = b4\<rparr>"
    and "onNewEntry cb (withData entry d) = None"
  shows "\<exists>s'. pollForNewEntries cb [t1, t2, t3, t4] s =
           (s', [NextEntryCall A, Sleep 2000,
                 NextEntryCall A, Sleep 2000,
                 NextEntryCall A, OnNewEntry (withData entry d), Sleep 2000,
                 NextEntryCall B, Sleep 2000], None)
         \<and> lastOffset s' = Some B"
proof -
  from assms obtain s1 where 1: "iteration cb t1 s = (s1, [NextEntryCall A, Sleep 2000], None)"
    "lastOffset s1 = Some A" "requestCount s1 \<le> Suc (requestCount s)"
    using iteration_no_content [of s A t1 b1 cb] by auto
  from assms 1 obtain s2 where 2: "iteration cb t2 s1 = (s2, [NextEntryCall A, Sleep 2000], None)"
    "lastOffset s2 = Some A" "requestCount s2 \<le> Suc (requestCount s1)"
    using iteration_no_content [of s1 A t2 b2 cb] by auto
  from assms 1 2 obtain s3 where 3: "iteration cb t3 s2 =
      (s3, [NextEntryCall A, OnNewEntry (withData entry d), Sleep 2000], None)"
    "lastOffset s3 = Some B" "requestCount s3 \<le> Suc (requestCount s2)"
    using iteration_new_entry [of s2 A t3 entry u d cb] by auto
  from assms 1 2 3 obtain s4 where 4: "iteration cb t4 s3 = (s4, [NextEntryCall B, Sleep 2000], None)"
    "lastOffset s4 = Some B"
    using iteration_no_content [of s3 B t4 b4 cb] by auto
  show ?thesis
    using assms(6-9) 1(1) 2(1) 3(1) 4 by simp
qed

theorem cursor_loop_scenario_witness:
  "\<exists>s'. pollForNewEntries
      \<lparr>onNewEntry = (\<lambda>e. None), onError = (\<lambda>m. None), onStatusUpdate = (\<lambda>u. None)\<rparr>
      [\<lparr>isRunning = True, now_reset = 2000, now_wait = 2000,
        next_response = Inr \<lparr>r_status = 204, r_data = None\<rparr>,
        next_download = DownloadOtherError [], isRunning_catch = True\<rparr>,
       \<lparr>isRunning = True, now_reset = 4000, now_wait = 4000,
        next_response = Inr \<lparr>r_status = 204, r_data = None\<rparr>,
        next_download = DownloadOtherError [], isRunning_catch = True\<rparr>,
       \<lparr>isRunning = True, now_reset = 6000, now_wait = 6000,
        next_response = Inr \<lparr>r_status = 200,
          r_data = Some \<lparr>url = Some ''https://signed/1'', expiresAt = ''x'',
                          currentOffset = ''B''\<rparr>\<rparr>,
        next_download = Downloaded \<lparr>offset = ''B'', journalEvents = [], publishedAt = ''p''\<rparr>,
        isRunning_catch = True\<rparr>,
       \<lparr>isRunning = True, now_reset = 8000, now_wait = 8000,
        next_response = Inr \<lparr>r_status = 204, r_data = None\<rparr>,
        next_download = DownloadOtherError [], isRunning_catch = True\<rparr>]
      \<lparr>lastOffset = Some ''A'', requestCount = 1, lastMinuteTimestamp = 1000\<rparr>
    = (s', [NextEntryCall ''A'', Sleep 2000,
            NextEntryCall ''A'', Sleep 2000,
            NextEntryCall ''A'',
            OnNewEntry (withData
              \<lparr>url = Some ''https://signed/1'', expiresAt = ''x'', currentOffset = ''B''\<rparr>
              \<lparr>offset = ''B'', journalEvents = [], publishedAt = ''p''\<rparr>),
            Sleep 2000,
            NextEntryCall ''B'', Sleep 2000], None)
    \<and> lastOffset s' = Some ''B''"
  by (rule cursor_loop_scenario [where u = "''https://signed/1''"]) simp_all

text \<open>
  C2, as stated, at the responses "entry with offset B", then "entry with offset A",
  from the held offset A: the held offset becomes B and then A again, a value held
  before.
\<close>

theorem held_offset_returns:
  "lastOffset (fst (pollForNewEntries
      \<lparr>onNewEntry = (\<lambda>e. None), onError = (\<lambda>m. None), onStatusUpdate = (\<lambda>u. None)\<rparr>
      [\<lparr>isRunning = True, now_reset = 2000, now_wait = 2000,
        next_response = Inr \<lparr>r_status = 200,
          r_data = Some \<lparr>url = Some ''u1'', expiresAt = ''x'', currentOffset = ''B''\<rparr>\<rparr>,
        next_download = Downloaded \<lparr>offset = ''B'', journalEvents = [], publishedAt = ''p''\<rparr>,
        isRunning_catch = True\<rparr>]
      \<lparr>lastOffset = Some ''A'', requestCount = 1, lastMinuteTimestamp = 1000\<rparr>)) = Some ''B''
   \<and> lastOffset (fst (pollForNewEntries
      \<lparr>onNewEntry = (\<lambda>e. None), onError = (\<lambda>m. None), onStatusUpdate = (\<lambda>u. None)\<rparr>
      [\<lparr>isRunning = True, now_reset = 2000, now_wait = 2000,
        next_response = Inr \<lparr>r_status = 200,
          r_data = Some \<lparr>url = Some ''u1'', expiresAt = ''x'', currentOffset = ''B''\<rparr>\<rparr>,
        next_download = Downloaded \<lparr>offset = ''B'', journalEvents = [], publishedAt = ''p''\<rparr>,
        isRunning_catch = True\<rparr>,
       \<lparr>isRunning = True, now_reset = 4000, now_wait = 4000,
        next_response = Inr \<lparr>r_status = 200,
          r_data = Some \<lparr>url = Some ''u2'', expiresAt = ''x'', currentOffset = ''A''\<rparr>\<rparr>,
        next_download = Downloaded \<lparr>offset = ''A'', journalEvents = [], publishedAt = ''p''\<rparr>,
        isRunning_catch = True\<rparr>]
      \<lparr>lastOffset = Some ''A'', requestCount = 1, lastMinuteTimestamp = 1000\<rparr>)) = Some ''A''"
  by (simp add: iteration_def outerTry_def checkRateLimit_def resetRateLimit_def
      innerTry_def innerCatch_def incrementRequestCount_def Let_def
      MAX_REQUESTS_PER_MINUTE_def getNextJournalEntry_def handleGet_def
      downloadJournalData_def withData_def)

text \<open>
  C2, amended: in every pass of the loop the held offset either stays unchanged or is
  replaced by the \<open>currentOffset\<close> of the entry this pass received, which differs from
  the value held at that moment and is handed to \<open>onNewEntry\<close>; the loop changes the
  held offset in no other way. (The comparison is with the value held at that moment
  only, not with values held earlier.)
\<close>

theorem held_offset_step:
  assumes "iteration cb t s = (s', effs, thrown)"
  shows "lastOffset s' = lastOffset s
       \<or> (\<exists>entry. getNextJournalEntry (next_response t) (next_download t) = Inr entry
             \<and> lastOffset s \<noteq> Some (currentOffset entry)
             \<and> lastOffset s' = Some (currentOffset entry)
             \<and> OnNewEntry entry \<in> set effs)"
  using assms
  by (auto simp add: iteration_def outerTry_def checkRateLimit_def resetRateLimit_def
      innerTry_def innerCatch_def incrementRequestCount_def Let_def
      split: option.splits if_splits sum.splits prod.splits)

theorem held_offset_step_witness:
  "lastOffset (fst (iteration
      \<lparr>onNewEntry = (\<lambda>e. None), onError = (\<lambda>m. None), onStatusUpdate = (\<lambda>u. None)\<rparr>
      \<lparr>isRunning = True, now_reset = 2000, now_wait = 2000,
       next_response = Inr \<lparr>r_status = 200,
         r_data = Some \<lparr>url = Some ''u1'', expiresAt = ''x'', currentOffset = ''B''\<rparr>\<rparr>,
       next_download = Downloaded \<lparr>offset = ''B'', journalEvents = [], publishedAt = ''p''\<rparr>,
       isRunning_catch = True\<rparr>
      \<lparr>lastOffset = Some ''A'', requestCount = 1, lastMinuteTimestamp = 1000\<rparr>)) = Some ''B''"
proof -
  let ?cb = "\<lparr>onNewEntry = (\<lambda>e. None), onError = (\<lambda>m. None), onStatusUpdate = (\<lambda>u. None)\<rparr>"
  let ?t = "\<lparr>isRunning = True, now_reset = 2000, now_wait = 2000,
       next_response = Inr \<lparr>r_status = 200,
         r_data = Some \<lparr>url = Some ''u1'', expiresAt = ''x'', currentOffset = ''B''\<rparr>\<rparr>,
       next_download = Downloaded \<lparr>offset = ''B'', journalEvents = [], publishedAt = ''p''\<rparr>,
       isRunning_catch = True\<rparr>"
  let ?s = "\<lparr>lastOffset = Some ''A'', requestCount = 1, lastMinuteTimestamp = 1000\<rparr>"
  have got: "getNextJournalEntry (next_response ?t) (next_download ?t) =
      Inr (withData \<lparr>url = Some ''u1'', expiresAt = ''x'', currentOffset = ''B''\<rparr>
             \<lparr>offset = ''B'', journalEvents = [], publishedAt = ''p''\<rparr>)"
    by (simp add: next_entry_ok)
  obtain s' effs thrown where it: "iteration ?cb ?t ?s = (s', effs, thrown)"
    by (cases "iteration ?cb ?t ?s") auto
  have changed: "lastOffset s' \<noteq> lastOffset ?s"
    using it
    by (auto simp add: iteration_def outerTry_def checkRateLimit_def resetRateLimit_def
        innerTry_def incrementRequestCount_def Let_def MAX_REQUESTS_PER_MINUTE_def
        getNextJournalEntry_def handleGet_def downloadJournalData_def withData_def)
  from held_offset_step [OF it] changed got have "lastOffset s' = Some ''B''"
    by (auto simp add: withData_def)
  with it show ?thesis by simp
qed

text \<open>
  The outer \<open>catch\<close> is where the doubled sleep is: it is reached when a callback
  throws, not when the request for the next entry fails.
\<close>

lemma outer_catch_backoff:
  assumes "outerTry cb t s = (s1, effs, Some thrown)" and "\<not> isRunning_catch t"
  shows "iteration cb t s = (s1, effs @ [Sleep 4000], None)"
  using assms by (simp add: iteration_def POLL_INTERVAL_MS_def)

text \<open>
  C5 at a pass whose request fails with a 500: \<open>onError\<close> is called with the failure
  and the pass then sleeps the normal poll interval of 2000 ms, not the doubled one.
\<close>

theorem request_failure_sleep:
  "iteration
      \<lparr>onNewEntry = (\<lambda>e. None), onError = (\<lambda>m. None), onStatusUpdate = (\<lambda>u. None)\<rparr>
      \<lparr>isRunning = True, now_reset = 2000, now_wait = 2000,
       next_response = Inl (ApiClientError ''API Error: boom'' (Some 500) None None),
       next_download = DownloadOtherError [], isRunning_catch = True\<rparr>
      \<lparr>lastOffset = Some ''A'', requestCount = 1, lastMinuteTimestamp = 1000\<rparr>
   = (\<lparr>lastOffset = Some ''A'', requestCount = 2, lastMinuteTimestamp = 1000\<rparr>,
      [NextEntryCall ''A'',
       OnError ''Error checking for new entries: ApiClientError: API Error: boom'',
       Sleep 2000], None)"
  by (simp add: iteration_def outerTry_def checkRateLimit_def resetRateLimit_def
      innerTry_def innerCatch_def incrementRequestCount_def Let_def
      MAX_REQUESTS_PER_MINUTE_def POLL_INTERVAL_MS_def getNextJournalEntry_def handleGet_def)

text \<open>
  What the counter bounds is the number of calls of the two journal operations. Within
  one window a run makes at most as many calls as the counter leaves of the 30: a run
  whose passes all read the clock less than 60000 ms after the start of the window of
  its first state makes at most \<open>30 - requestCount\<close> calls; so the stream, as long as
  every pass reads the clock within 60000 ms of its start, makes at most 30 calls, the
  fetch of the latest entry included. A pass that finds 30 or more counted in a window
  that has not elapsed makes no call, and (its status callback returning) only reports
  the limit and sleeps the rest of the window, \<open>60000 - (now - lastMinuteTimestamp)\<close>,
  leaving the state as it is. The counter is reset to 0, and the window restarted at
  the reading, when the time since the start of the window exceeds 60000 ms.
\<close>

theorem rate_budget:
  assumes "\<forall>t \<in> set ticks. now_reset t - now_start st < 60000"
  shows "length (filter isJournalCall (snd (streamJournalEntries cb st ticks))) \<le> 30
       \<and> (\<forall>s ts. (\<forall>t \<in> set ts. now_reset t - lastMinuteTimestamp s < 60000) \<longrightarrow>
             requestCount s + length (filter isJournalCall (fst (snd (pollForNewEntries cb ts s))))
               \<le> max 30 (requestCount s))
       \<and> (\<forall>s t. 30 \<le> requestCount s \<and> now_reset t - lastMinuteTimestamp s < 60000 \<longrightarrow>
             filter isJournalCall (fst (snd (iteration cb t s))) = []
           \<and> (onStatusUpdate cb
                 (RateLimitReached (ceilSeconds (60000 - (now_wait t - lastMinuteTimestamp s))))
                = None \<longrightarrow>
               iteration cb t s =
                 (s, [OnStatusUpdate
                        (RateLimitReached
                           (ceilSeconds (60000 - (now_wait t - lastMinuteTimestamp s)))),
                      Sleep (60000 - (now_wait t - lastMinuteTimestamp s))], None)))
       \<and> (\<forall>s now. now - lastMinuteTimestamp s > 60000 \<longrightarrow>
             requestCount (resetRateLimit now s) = 0
           \<and> lastMinuteTimestamp (resetRateLimit now s) = now)"
proof -
  have window: "requestCount s + length (filter isJournalCall (fst (snd (pollForNewEntries cb ts s))))
               \<le> max 30 (requestCount s)"
    if "\<forall>t \<in> set ts. now_reset t - lastMinuteTimestamp s < 60000" for s ts
    using poll_count [OF that, of cb]
    by (cases "pollForNewEntries cb ts s") auto
  have blocked: "filter isJournalCall (fst (snd (iteration cb t s))) = []
       \<and> (onStatusUpdate cb
             (RateLimitReached (ceilSeconds (60000 - (now_wait t - lastMinuteTimestamp s))))
            = None \<longrightarrow>
           iteration cb t s =
             (s, [OnStatusUpdate
                    (RateLimitReached
                       (ceilSeconds (60000 - (now_wait t - lastMinuteTimestamp s)))),
                  Sleep (60000 - (now_wait t - lastMinuteTimestamp s))], None))"
    if "30 \<le> requestCount s" and "now_reset t - lastMinuteTimestamp s < 60000" for s t
    using outerTry_blocked [OF that, of cb]
    by (auto simp add: iteration_def Let_def split: option.splits)
  have reset: "requestCount (resetRateLimit now s) = 0
       \<and> lastMinuteTimestamp (resetRateLimit now s) = now"
    if "now - lastMinuteTimestamp s > 60000" for s now
    using that by (simp add: resetRateLimit_def)
  have total: "length (filter isJournalCall (snd (streamJournalEntries cb st ticks))) \<le> 30"
  proof (cases "onStatusUpdate cb GettingInitial")
    case (Some thrown)
    then show ?thesis by (simp add: streamJournalEntries_def initFailed_def)
  next
    case None
    show ?thesis
    proof (cases "getLatestJournalEntry (latest_response st) (latest_download st)")
      case (Inl e)
      then show ?thesis using None by (simp add: streamJournalEntries_def initFailed_def)
    next
      case (Inr initialEntry)
      let ?s1 = "incrementRequestCount
          (\<lparr>lastOffset = None, requestCount = 0, lastMinuteTimestamp = now_start st\<rparr>
             \<lparr>lastOffset := Some (currentOffset initialEntry)\<rparr>)"
      let ?u = "StartingFrom (take 8 (currentOffset initialEntry))"
      show ?thesis
      proof (cases "onStatusUpdate cb ?u")
        case (Some thrown)
        then show ?thesis
          using None Inr by (simp add: streamJournalEntries_def initFailed_def Let_def)
      next
        case none2: None
        obtain s2 effs thr where run: "pollForNewEntries cb ticks ?s1 = (s2, effs, thr)"
          by (cases "pollForNewEntries cb ticks ?s1") auto
        have "\<forall>t \<in> set ticks. now_reset t - lastMinuteTimestamp ?s1 < 60000"
          using assms by (simp add: incrementRequestCount_def)
        from poll_count [OF this run]
        have "length (filter isJournalCall effs) \<le> 29"
          by (simp add: incrementRequestCount_def)
        then show ?thesis
          using None Inr none2 run
          by (cases thr) (simp_all add: streamJournalEntries_def Let_def)
      qed
    qed
  qed
  from total window blocked reset show ?thesis by blast
qed

theorem rate_budget_witness:
  "length (filter isJournalCall (snd (streamJournalEntries
      \<lparr>onNewEntry = (\<lambda>e. None), onError = (\<lambda>m. None), onStatusUpdate = (\<lambda>u. None)\<rparr>
      \<lparr>now_start = 1000,
       latest_response = Inr \<lparr>r_status = 200,
         r_data = \<lparr>url = Some ''https://signed/0'', expiresAt = ''x'', currentOffset = ''A''\<rparr>\<rparr>,
       latest_download = Downloaded \<lparr>offset = ''A'', journalEvents = [], publishedAt = ''p''\<rparr>,
       isRunning_rejected = True\<rparr>
      (replicate 40
        \<lparr>isRunning = True, now_reset = 2000, now_wait = 2500,
         next_response = Inr \<lparr>r_status = 204, r_data = None\<rparr>,
         next_download = DownloadOtherError [], isRunning_catch = True\<rparr>)))) \<le> 30
   \<and> length (filter isJournalCall (snd (streamJournalEntries
      \<lparr>onNewEntry = (\<lambda>e. None), onError = (\<lambda>m. None), onStatusUpdate = (\<lambda>u. None)\<rparr>
      \<lparr>now_start = 1000,
       latest_response = Inr \<lparr>r_status = 200,
         r_data = \<lparr>url = Some ''https://signed/0'', expiresAt = ''x'', currentOffset = ''A''\<rparr>\<rparr>,
       latest_download = Downloaded \<lparr>offset = ''A'', journalEvents = [], publishedAt = ''p''\<rparr>,
       isRunning_rejected = True\<rparr>
      (replicate 40
        \<lparr>isRunning = True, now_reset = 2000, now_wait = 2500,
         next_response = Inr \<lparr>r_status = 204, r_data = None\<rparr>,
         next_download = DownloadOtherError [], isRunning_catch = True\<rparr>)))) = 30
   \<and> iteration
      \<lparr>onNewEntry = (\<lambda>e. None), onError = (\<lambda>m. None), onStatusUpdate = (\<lambda>u. None)\<rparr>
      \<lparr>isRunning = True, now_reset = 2000, now_wait = 2500,
       next_response = Inr \<lparr>r_status = 204, r_data = None\<rparr>,
       next_download = DownloadOtherError [], isRunning_catch = True\<rparr>
      \<lparr>lastOffset = Some ''A'', requestCount = 30, lastMinuteTimestamp = 1000\<rparr>
     = (\<lparr>lastOffset = Some ''A'', requestCount = 30, lastMinuteTimestamp = 1000\<rparr>,
        [OnStatusUpdate (RateLimitReached 59), Sleep 58500], None)
   \<and> resetRateLimit 61001 \<lparr>lastOffset = Some ''A'', requestCount = 30, lastMinuteTimestamp = 1000\<rparr>
     = \<lparr>lastOffset = Some ''A'', requestCount = 0, lastMinuteTimestamp = 61001\<rparr>"
proof -
  let ?cb = "\<lparr>onNewEntry = (\<lambda>e. None), onError = (\<lambda>m. None), onStatusUpdate = (\<lambda>u. None)\<rparr>"
  let ?st = "\<lparr>now_start = 1000,
       latest_response = Inr \<lparr>r_status = 200,
         r_data = \<lparr>url = Some ''https://signed/0'', expiresAt = ''x'', currentOffset = ''A''\<rparr>\<rparr>,
       latest_download = Downloaded \<lparr>offset = ''A'', journalEvents = [], publishedAt = ''p''\<rparr>,
       isRunning_rejected = True\<rparr>"
  let ?t = "\<lparr>isRunning = True, now_reset = 2000, now_wait = 2500,
         next_response = Inr \<lparr>r_status = 204, r_data = None\<rparr>,
         next_download = DownloadOtherError [], isRunning_catch = True\<rparr>"
  let ?s = "\<lparr>lastOffset = Some ''A'', requestCount = 30, lastMinuteTimestamp = 1000\<rparr>"
  have win: "\<forall>t \<in> set (replicate 40 ?t). now_reset t - now_start ?st < 60000"
    by simp
  note rb = rate_budget [OF win, of ?cb]
  have 1: "length (filter isJournalCall (snd (streamJournalEntries ?cb ?st (replicate 40 ?t)))) \<le> 30"
    using rb by blast
  have 0: "length (filter isJournalCall (snd (streamJournalEntries ?cb ?st (replicate 40 ?t)))) = 30"
    by code_simp
  have "30 \<le> requestCount ?s \<and> now_reset ?t - lastMinuteTimestamp ?s < 60000
      \<and> onStatusUpdate ?cb
           (RateLimitReached (ceilSeconds (60000 - (now_wait ?t - lastMinuteTimestamp ?s)))) = None"
    by simp
  with rb have "iteration ?cb ?t ?s =
      (?s, [OnStatusUpdate
              (RateLimitReached (ceilSeconds (60000 - (now_wait ?t - lastMinuteTimestamp ?s)))),
            Sleep (60000 - (now_wait ?t - lastMinuteTimestamp ?s))], None)"
    by blast
  then have 2: "iteration ?cb ?t ?s = (?s, [OnStatusUpdate (RateLimitReached 59), Sleep 58500], None)"
    by (simp add: ceilSeconds_def)
  have "61001 - lastMinuteTimestamp ?s > 60000" by simp
  with rb have "requestCount (resetRateLimit 61001 ?s) = 0
      \<and> lastMinuteTimestamp (resetRateLimit 61001 ?s) = 61001"
    by blast
  then have 3: "resetRateLimit 61001 ?s
      = \<lparr>lastOffset = Some ''A'', requestCount = 0, lastMinuteTimestamp = 61001\<rparr>"
    by (simp add: resetRateLimit_def)
  from 0 1 2 3 show ?thesis by blast
qed

text \<open>
  A pass calls the gateway exactly when it records a call of the next-entry operation.
\<close>

lemma lastOffset_resetRateLimit: "lastOffset (resetRateLimit now s) = lastOffset s"
  by (simp add: resetRateLimit_def)

lemma outerTry_requests:
  "filter isJournalCall (fst (snd (outerTry cb t s))) =
     (if willRequest t s then [NextEntryCall (the (lastOffset s))] else [])"
proof -
  let ?s1 = "resetRateLimit (now_reset t) s"
  show ?thesis
  proof (cases "requestCount ?s1 < MAX_REQUESTS_PER_MINUTE")
    case False
    then show ?thesis
      by (simp add: outerTry_def willRequest_def checkRateLimit_def Let_def
          split: option.splits)
  next
    case True
    show ?thesis
    proof (cases "lastOffset ?s1")
      case None
      then show ?thesis
        using True by (simp add: outerTry_def willRequest_def checkRateLimit_def Let_def)
    next
      case (Some off)
      show ?thesis
      proof (cases "off = []")
        case True
        then show ?thesis
          using \<open>requestCount ?s1 < MAX_REQUESTS_PER_MINUTE\<close> Some
          by (simp add: outerTry_def willRequest_def checkRateLimit_def Let_def)
      next
        case False
        obtain s2 effs2 thr2 where it: "innerTry cb t off ?s1 = (s2, effs2, thr2)"
          by (cases "innerTry cb t off ?s1") auto
        from innerTry_count [OF it] have "filter isJournalCall effs2 = [NextEntryCall off]"
          by simp
        moreover have "lastOffset s = Some off"
          using Some by (simp add: lastOffset_resetRateLimit)
        ultimately show ?thesis
          using True Some False it
          by (cases thr2) (simp_all add: outerTry_def willRequest_def checkRateLimit_def Let_def)
      qed
    qed
  qed
qed

lemma willRequest_requests:
  "filter isJournalCall (fst (snd (iteration cb t s))) =
     (if willRequest t s then [NextEntryCall (the (lastOffset s))] else [])"
proof -
  have "filter isJournalCall (fst (snd (iteration cb t s))) =
      filter isJournalCall (fst (snd (outerTry cb t s)))"
    by (cases "outerTry cb t s")
      (auto simp add: iteration_def Let_def split: option.splits)
  then show ?thesis by (simp add: outerTry_requests)
qed

lemma willRequest_response:
  "willRequest (t\<lparr>next_response := r\<rparr>) s = willRequest t s"
  by (simp add: willRequest_def)


section \<open>Properties of the ApiClient\<close>

text \<open>
  C3 at a request whose first two dispatches are answered 401 and the third 200, with
  a cached token and a token endpoint that answers: the gateway refreshes the token
  twice (two exchanges) and dispatches the request three times, and returns the 200
  response; the second 401 is not surfaced.
\<close>

theorem repeated_401_refreshes_again:
  "(case axiosInstance
     [Rejected (Some 401) None ''Request failed with status code 401'',
      Rejected (Some 401) None ''Request failed with status code 401'',
      Resolved \<lparr>r_status = 200, r_data = ''payload''\<rparr>]
     \<lparr>debug = False,
      currentToken = Some \<lparr>access_token = ''t0'', token_type = ''bearer'', expires_in = 1800,
        refresh_token = None, scope = None, obtained_at = Some 1000\<rparr>,
      lastTokenLogTime = 0, clock = (\<lambda>n. 2000), reads = 0,
      oauth = (\<lambda>n. PostOk \<lparr>access_token = ''t1'', token_type = ''bearer'', expires_in = 1800,
        refresh_token = None, scope = None, obtained_at = None\<rparr>), posts = 0\<rparr>
    of None \<Rightarrow> False
     | Some (r, w, rest) \<Rightarrow>
         r = Inr \<lparr>r_status = 200, r_data = ''payload''\<rparr> \<and> posts w = 2 \<and> rest = [])"
  by (simp add: getAccessToken_def isTokenExpired_def Date_now_def refreshToken_def
      fetchAndStore_def fetchAccessToken_def)

section \<open>Properties of the SubscriptionsApi\<close>

lemma calls_deleteEach:
  "filter isCall (deleteEach env k subs) = map (\<lambda>sub. DeleteSubscriptionCall (sub_id sub)) subs"
  by (induction subs arbitrary: k) (auto split: sum.splits)

lemma calls_individually:
  "getSubscriptions (list_response env) = Inr subs \<Longrightarrow>
   fst (deletePortalSubscriptionsIndividually env pid) = Inr ()
   \<and> filter isCall (snd (deletePortalSubscriptionsIndividually env pid)) =
       GetSubscriptionsCall #
       map (\<lambda>sub. DeleteSubscriptionCall (sub_id sub)) (filter (\<lambda>sub. portalId sub = pid) subs)"
  by (simp add: deletePortalSubscriptionsIndividually_def Let_def calls_deleteEach)

lemma calls_individually_failed:
  "getSubscriptions (list_response env) = Inl e \<Longrightarrow>
   deletePortalSubscriptionsIndividually env pid = (Inl e, [GetSubscriptionsCall])"
  by (simp add: deletePortalSubscriptionsIndividually_def)

text \<open>
  C6, as stated, at a bulk delete that fails with the server-side status 503: no
  fallback happens; the error is passed on after the single bulk call.
\<close>

theorem bulk_503_no_fallback:
  "deletePortalSubscriptions
     \<lparr>bulk_response = Inl (ApiClientError ''API Error: unavailable'' (Some 503) None None),
      list_response = Inr \<lparr>r_status = 200, r_data = \<lparr>results = []\<rparr>\<rparr>,
      item_response = (\<lambda>k i. Inr \<lparr>r_status = 204, r_data = ()\<rparr>)\<rparr> 7
   = (Inl (ApiClientError ''API Error: unavailable'' (Some 503) None None), [BulkDeleteCall 7])"
  by (simp add: deletePortalSubscriptions_def handleDelete_def)

text \<open>
  C6, amended: deleting all subscriptions of a portal first issues a single bulk-delete
  call. If it succeeds, or fails with an error whose statusCode is not exactly 500,
  nothing else is requested (the error is passed on). If and only if it fails with
  statusCode 500, the subscriptions are listed; when the listing succeeds, exactly one
  individual delete is issued per listed subscription whose portalId equals the requested
  portal, in the order of the list, whether or not earlier ones failed, and the operation
  succeeds; when the listing fails, its error is passed on.
\<close>

theorem bulk_delete_fallback:
  shows "(\<forall>u. handleDelete (bulk_response env) = Inr u \<longrightarrow>
            deletePortalSubscriptions env pid = (Inr (), [BulkDeleteCall pid]))
       \<and> (\<forall>e. handleDelete (bulk_response env) = Inl e \<and> statusCode e \<noteq> Some 500 \<longrightarrow>
            deletePortalSubscriptions env pid = (Inl e, [BulkDeleteCall pid]))
       \<and> (\<forall>e subs. handleDelete (bulk_response env) = Inl e \<and> statusCode e = Some 500
              \<and> getSubscriptions (list_response env) = Inr subs \<longrightarrow>
            fst (deletePortalSubscriptions env pid) = Inr ()
          \<and> filter isCall (snd (deletePortalSubscriptions env pid)) =
              [BulkDeleteCall pid, GetSubscriptionsCall] @
              map (\<lambda>sub. DeleteSubscriptionCall (sub_id sub))
                (filter (\<lambda>sub. portalId sub = pid) subs))
       \<and> (\<forall>e e'. handleDelete (bulk_response env) = Inl e \<and> statusCode e = Some 500
              \<and> getSubscriptions (list_response env) = Inl e' \<longrightarrow>
            deletePortalSubscriptions env pid =
              (Inl e', [BulkDeleteCall pid, LogFallback, GetSubscriptionsCall]))"
proof -
  have "fst (deletePortalSubscriptions env pid) = Inr ()
          \<and> filter isCall (snd (deletePortalSubscriptions env pid)) =
              [BulkDeleteCall pid, GetSubscriptionsCall] @
              map (\<lambda>sub. DeleteSubscriptionCall (sub_id sub))
                (filter (\<lambda>sub. portalId sub = pid) subs)"
    if "handleDelete (bulk_response env) = Inl e" and "statusCode e = Some 500"
      and "getSubscriptions (list_response env) = Inr subs" for e subs
    using that calls_individually [OF that(3), of pid]
    by (cases "deletePortalSubscriptionsIndividually env pid")
      (simp add: deletePortalSubscriptions_def)
  moreover have "deletePortalSubscriptions env pid =
              (Inl e', [BulkDeleteCall pid, LogFallback, GetSubscriptionsCall])"
    if "handleDelete (bulk_response env) = Inl e" and "statusCode e = Some 500"
      and "getSubscriptions (list_response env) = Inl e'" for e e'
    using that calls_individually_failed [OF that(3), of pid]
    by (simp add: deletePortalSubscriptions_def)
  ultimately show ?thesis
    by (auto simp add: deletePortalSubscriptions_def)
qed


theorem bulk_delete_fallback_witness:
  "deletePortalSubscriptions
     \<lparr>bulk_response = Inl (ApiClientError ''API Error: internal error'' (Some 500) None None),
      list_response = Inr \<lparr>r_status = 200, r_data = \<lparr>results =
        [\<lparr>sub_id = 11, appId = 1, subscriptionType = OBJECT, objectTypeId = ''0-1'',
          portalId = 7, actions = [''CREATE''], properties = None, objectIds = None,
          associatedObjectTypeIds = None, createdBy = 0, createdAt = ''c'', updatedAt = ''u'',
          deletedAt = None\<rparr>,
         \<lparr>sub_id = 12, appId = 1, subscriptionType = OBJECT, objectTypeId = ''0-2'',
          portalId = 8, actions = [''CREATE''], properties = None, objectIds = None,
          associatedObjectTypeIds = None, createdBy = 0, createdAt = ''c'', updatedAt = ''u'',
          deletedAt = None\<rparr>,
         \<lparr>sub_id = 13, appId = 1, subscriptionType = ASSOCIATION, objectTypeId = ''0-3'',
          portalId = 7, actions = [''DELETE''], properties = None, objectIds = None,
          associatedObjectTypeIds = None, createdBy = 0, createdAt = ''c'', updatedAt = ''u'',
          deletedAt = None\<rparr>]\<rparr>\<rparr>,
      item_response = (\<lambda>k i. if i = 11
         then Inl (ApiClientError ''API Error: not found'' (Some 404) None None)
         else Inr \<lparr>r_status = 204, r_data = ()\<rparr>)\<rparr> 7
   = (Inr (),
      [BulkDeleteCall 7, LogFallback, GetSubscriptionsCall, LogDeleting 2,
       DeleteSubscriptionCall 11,
       LogFailed 11 (ApiClientError ''API Error: not found'' (Some 404) None None),
       DeleteSubscriptionCall 13, LogDeleted 13])"
proof -
  let ?subs = "[\<lparr>sub_id = 11, appId = 1, subscriptionType = OBJECT, objectTypeId = ''0-1'',
          portalId = 7, actions = [''CREATE''], properties = None, objectIds = None,
          associatedObjectTypeIds = None, createdBy = 0, createdAt = ''c'', updatedAt = ''u'',
          deletedAt = None\<rparr>,
         \<lparr>sub_id = 12, appId = 1, subscriptionType = OBJECT, objectTypeId = ''0-2'',
          portalId = 8, actions = [''CREATE''], properties = None, objectIds = None,
          associatedObjectTypeIds = None, createdBy = 0, createdAt = ''c'', updatedAt = ''u'',
          deletedAt = None\<rparr>,
         \<lparr>sub_id = 13, appId = 1, subscriptionType = ASSOCIATION, objectTypeId = ''0-3'',
          portalId = 7, actions = [''DELETE''], properties = None, objectIds = None,
          associatedObjectTypeIds = None, createdBy = 0, createdAt = ''c'', updatedAt = ''u'',
          deletedAt = None\<rparr>]"
  let ?e = "ApiClientError ''API Error: internal error'' (Some 500) None None"
  let ?env = "\<lparr>bulk_response = Inl ?e,
      list_response = Inr \<lparr>r_status = 200, r_data = \<lparr>results = ?subs\<rparr>\<rparr>,
      item_response = (\<lambda>k i. if i = (11::int)
         then Inl (ApiClientError ''API Error: not found'' (Some 404) None None)
         else Inr \<lparr>r_status = 204, r_data = ()\<rparr>)\<rparr>"
  have hyp: "handleDelete (bulk_response ?env) = Inl ?e \<and> statusCode ?e = Some 500
      \<and> getSubscriptions (list_response ?env) = Inr ?subs"
    by (simp add: handleDelete_def getSubscriptions_def handleGet_def)
  with bulk_delete_fallback [of ?env 7]
  have "fst (deletePortalSubscriptions ?env 7) = Inr ()
      \<and> filter isCall (snd (deletePortalSubscriptions ?env 7)) =
          [BulkDeleteCall 7, GetSubscriptionsCall] @
          map (\<lambda>sub. DeleteSubscriptionCall (sub_id sub))
            (filter (\<lambda>sub. portalId sub = 7) ?subs)"
    by blast
  then show ?thesis
    by (simp add: deletePortalSubscriptions_def deletePortalSubscriptionsIndividually_def
        handleDelete_def getSubscriptions_def handleGet_def deleteSubscription_def)
qed

end
